theory Spec2Isabelle
  imports Complex_Main
begin

section \<open>Arithmetic of the notebook\<close>

text \<open>
  The notebook computes with IEEE double-precision numbers; they are idealised here as
  the reals, so rounding and overflow are outside the model (rounding is taken up
  separately, for the one denominator where it matters). What is kept is the way a
  division by zero ends, because the two kinds of number in the notebook differ there:
  \<^item> the physical parameters are Python floats (\<^verbatim>\<open>L1 = 1.0\<close>, handed on unchanged through
    \<^verbatim>\<open>args=(L1, L2, m1, m2, g)\<close>), and a Python float divided by zero raises
    \<^verbatim>\<open>ZeroDivisionError\<close>;
  \<^item> everything that went through \<^verbatim>\<open>np.cos\<close> or \<^verbatim>\<open>np.sin\<close> is a numpy \<^verbatim>\<open>float64\<close>, and a
    numpy division by zero only warns and yields a non-finite value (infinity or
    not-a-number), written \<open>None\<close> here.
\<close>

datatype error = ZeroDivisionError | ValueError | IndexError

definition py_truediv :: "real \<Rightarrow> real \<Rightarrow> error + real" where
  "py_truediv a b = (if b = 0 then Inl ZeroDivisionError else Inr (a / b))"

definition np_true_divide :: "real \<Rightarrow> real \<Rightarrow> real option" where
  "np_true_divide a b = (if b = 0 then None else Some (a / b))"

section \<open>Cell 2: the equations of motion\<close>

text \<open>
  \<^verbatim>\<open>denominator1 = (m1 + m2) * L1 - m2 * L1 * cos_delta * cos_delta\<close> and
  \<^verbatim>\<open>denominator2 = (L2 / L1) * denominator1\<close>, the two local variables of
  \<^verbatim>\<open>double_pendulum_derivatives\<close>. The quotient \<^verbatim>\<open>L2 / L1\<close> is between Python floats.
\<close>

definition denominator1 :: "real \<Rightarrow> real \<Rightarrow> real \<Rightarrow> real \<Rightarrow> real" where
  "denominator1 L1 m1 m2 cos_delta = (m1 + m2) * L1 - m2 * L1 * cos_delta * cos_delta"

definition denominator2 :: "real \<Rightarrow> real \<Rightarrow> real \<Rightarrow> error + real" where
  "denominator2 L1 L2 den1 =
     (case py_truediv L2 L1 of Inl e \<Rightarrow> Inl e | Inr q \<Rightarrow> Inr (q * den1))"

text \<open>
  \<^verbatim>\<open>double_pendulum_derivatives(y, t, L1, L2, m1, m2, g)\<close>. The unpacking
  \<^verbatim>\<open>theta1, z1, theta2, z2 = y\<close> raises \<^verbatim>\<open>ValueError\<close> unless \<open>y\<close> has four entries;
  \<^verbatim>\<open>dydt = np.zeros_like(y)\<close> is then filled by index.
\<close>

fun double_pendulum_derivatives ::
  "real list \<Rightarrow> real \<Rightarrow> real \<Rightarrow> real \<Rightarrow> real \<Rightarrow> real \<Rightarrow> real \<Rightarrow> error + real option list" where
  "double_pendulum_derivatives [theta1, z1, theta2, z2] t L1 L2 m1 m2 g =
     (let cos_delta = cos (theta1 - theta2);
          sin_delta = sin (theta1 - theta2);
          den1 = denominator1 L1 m1 m2 cos_delta
      in case denominator2 L1 L2 den1 of
           Inl e \<Rightarrow> Inl e
         | Inr den2 \<Rightarrow>
            (let dydt = map (\<lambda>_. Some 0) [theta1, z1, theta2, z2];
                 dydt = dydt[0 := Some z1];
                 dydt = dydt[1 := np_true_divide
                          (m2 * L1 * z1 * z1 * sin_delta * cos_delta +
                           m2 * g * sin theta2 * cos_delta +
                           m2 * L2 * z2 * z2 * sin_delta -
                           (m1 + m2) * g * sin theta1) den1];
                 dydt = dydt[2 := Some z2];
                 dydt = dydt[3 := np_true_divide
                          (- m2 * L2 * z2 * z2 * sin_delta * cos_delta +
                           (m1 + m2) * (g * sin theta1 * cos_delta -
                           L1 * z1 * z1 * sin_delta - g * sin theta2)) den2]
             in Inr dydt))"
| "double_pendulum_derivatives y t L1 L2 m1 m2 g = Inl ValueError"

declare double_pendulum_derivatives.simps [simp del]

subsection \<open>The equations as the specification writes them\<close>

text \<open>
  The specification's division never raises: at a vanishing denominator the result is
  non-finite (\<open>None\<close>).
\<close>

definition spec_quotient :: "real \<Rightarrow> real \<Rightarrow> real option" where
  "spec_quotient num denom = (if denom = 0 then None else Some (num / denom))"

text \<open>
  The 4-tuple \<open>(dtheta1/dt, domega1/dt, dtheta2/dt, domega2/dt)\<close> of section 4.1 of the
  specification, written from its formulas (with powers, and with \<open>delta\<close> named), for
  comparison with the function of cell 2.
\<close>

definition spec_derivatives ::
  "real \<Rightarrow> real \<Rightarrow> real \<Rightarrow> real \<Rightarrow> real \<Rightarrow> real \<Rightarrow> real \<Rightarrow> real \<Rightarrow> real \<Rightarrow> real option list" where
  "spec_derivatives theta1 omega1 theta2 omega2 L1 L2 m1 m2 g =
     (let delta = theta1 - theta2;
          cos_delta = cos delta;
          sin_delta = sin delta;
          denom1 = (m1 + m2) * L1 - m2 * L1 * cos_delta\<^sup>2;
          denom2 = (L2 / L1) * denom1
      in [Some omega1,
          spec_quotient (m2 * L1 * omega1\<^sup>2 * sin_delta * cos_delta
                         + m2 * g * sin theta2 * cos_delta
                         + m2 * L2 * omega2\<^sup>2 * sin_delta
                         - (m1 + m2) * g * sin theta1) denom1,
          Some omega2,
          spec_quotient (- m2 * L2 * omega2\<^sup>2 * sin_delta * cos_delta
                         + (m1 + m2) * (g * sin theta1 * cos_delta
                                        - L1 * omega1\<^sup>2 * sin_delta
                                        - g * sin theta2)) denom2])"

section \<open>Cell 5: Cartesian coordinates\<close>

text \<open>
  The trajectory \<^verbatim>\<open>sol\<close> is a two-dimensional array, one row per time sample. A column
  slice \<^verbatim>\<open>sol[:, k]\<close> raises \<^verbatim>\<open>IndexError\<close> when the array has no column \<open>k\<close>. The numpy
  operations of the cell act entry by entry.
\<close>

definition column :: "nat \<Rightarrow> real list list \<Rightarrow> error + real list" where
  "column k sol =
     (if \<forall>row \<in> set sol. k < length row then Inr (map (\<lambda>row. row ! k) sol)
      else Inl IndexError)"

definition np_sin :: "real list \<Rightarrow> real list" where
  "np_sin a = map sin a"

definition np_cos :: "real list \<Rightarrow> real list" where
  "np_cos a = map cos a"

definition np_scale :: "real \<Rightarrow> real list \<Rightarrow> real list" where
  "np_scale c a = map (\<lambda>v. c * v) a"

definition np_add :: "real list \<Rightarrow> real list \<Rightarrow> real list" where
  "np_add a b = map2 (\<lambda>u v. u + v) a b"

definition np_subtract :: "real list \<Rightarrow> real list \<Rightarrow> real list" where
  "np_subtract a b = map2 (\<lambda>u v. u - v) a b"

text \<open>
  The four arrays \<^verbatim>\<open>x1, y1, x2, y2\<close> that cell 5 computes from a trajectory; the cell
  runs the same lines on \<^verbatim>\<open>sol\<close> and on \<^verbatim>\<open>sol_small\<close>.
\<close>

definition cartesian ::
  "real \<Rightarrow> real \<Rightarrow> real list list \<Rightarrow> error + (real list \<times> real list \<times> real list \<times> real list)" where
  "cartesian L1 L2 sol =
     (case column 0 sol of
        Inl e \<Rightarrow> Inl e
      | Inr theta1 \<Rightarrow>
         (case column 2 sol of
            Inl e \<Rightarrow> Inl e
          | Inr theta2 \<Rightarrow>
             (let x1 = np_scale L1 (np_sin theta1);
                  y1 = np_scale (- L1) (np_cos theta1);
                  x2 = np_add x1 (np_scale L2 (np_sin theta2));
                  y2 = np_subtract y1 (np_scale L2 (np_cos theta2))
              in Inr (x1, y1, x2, y2))))"

subsection \<open>The projection as the specification writes it\<close>

text \<open>
  Section 4.3 of the specification, for one sample: mass 1 at
  \<open>(L1*sin(theta1), -L1*cos(theta1))\<close>, mass 2 at the position of mass 1 plus
  \<open>(L2*sin(theta2), -L2*cos(theta2))\<close>.
\<close>

definition spec_mass1 :: "real \<Rightarrow> real \<Rightarrow> real \<times> real" where
  "spec_mass1 L1 theta1 = (L1 * sin theta1, - L1 * cos theta1)"

definition spec_mass2 :: "real \<Rightarrow> real \<Rightarrow> real \<Rightarrow> real \<Rightarrow> real \<times> real" where
  "spec_mass2 L1 L2 theta1 theta2 =
     (fst (spec_mass1 L1 theta1) + L2 * sin theta2,
      snd (spec_mass1 L1 theta1) + (- L2 * cos theta2))"

section \<open>Double precision\<close>








section \<open>Cells 3 and 4: parameters, initial conditions and the two runs\<close>

text \<open>
  \<^verbatim>\<open>np.linspace(start, stop, num)\<close> with its default \<^verbatim>\<open>endpoint=True\<close>, as numpy computes
  it: the indices \<open>0 .. num-1\<close> scaled by the step \<open>(stop - start) / (num - 1)\<close> and
  shifted by \<open>start\<close>, the last entry then overwritten with \<open>stop\<close>.
\<close>

definition linspace :: "real \<Rightarrow> real \<Rightarrow> nat \<Rightarrow> real list" where
  "linspace start stop num =
     (let divisor = num - 1;
          delta = stop - start;
          y = map real [0..<num];
          y = (if divisor > 0 then map (\<lambda>k. k * (delta / real divisor)) y
               else map (\<lambda>k. k * delta) y);
          y = map (\<lambda>v. v + start) y
      in if num > 1 then y[num - 1 := stop] else y)"

text \<open>
  \<^verbatim>\<open>scipy.integrate.odeint\<close> is a library solver and not part of the notebook; the two
  calls of cell 4 are modelled with the solver as a parameter \<open>odeint\<close>, which receives
  the derivative function, the initial state, the time samples and the tuple \<^verbatim>\<open>args\<close>.
\<close>

type_synonym solver =
  "(real list \<Rightarrow> real \<Rightarrow> real \<Rightarrow> real \<Rightarrow> real \<Rightarrow> real \<Rightarrow> real \<Rightarrow> error + real option list)
   \<Rightarrow> real list \<Rightarrow> real list \<Rightarrow> real \<times> real \<times> real \<times> real \<times> real
   \<Rightarrow> error + real list list"

definition L1 :: real where "L1 = 1"
definition L2 :: real where "L2 = 1"
definition m1 :: real where "m1 = 1"
definition m2 :: real where "m2 = 1"
definition g :: real where "g = 981 / 100"

definition theta1_0 :: real where "theta1_0 = pi / 2"
definition theta2_0 :: real where "theta2_0 = pi / 4"
definition z1_0 :: real where "z1_0 = 0"
definition z2_0 :: real where "z2_0 = 0"

definition theta1_0_small :: real where "theta1_0_small = theta1_0"
definition theta2_0_small :: real where "theta2_0_small = theta2_0 + 1 / 10 ^ 9"

definition t :: "real list" where "t = linspace 0 100 2000"

definition y0 :: "real list" where "y0 = [theta1_0, z1_0, theta2_0, z2_0]"
definition y0_small :: "real list" where
  "y0_small = [theta1_0_small, z1_0, theta2_0_small, z2_0]"

definition sol :: "solver \<Rightarrow> error + real list list" where
  "sol odeint = odeint double_pendulum_derivatives y0 t (L1, L2, m1, m2, g)"

definition sol_small :: "solver \<Rightarrow> error + real list list" where
  "sol_small odeint = odeint double_pendulum_derivatives y0_small t (L1, L2, m1, m2, g)"

section \<open>What the derivative function returns\<close>

text \<open>
  With \<open>L1 \<noteq> 0\<close> the quotient \<^verbatim>\<open>L2 / L1\<close> succeeds and the function returns its array;
  with \<open>L1 = 0\<close> that quotient raises before anything is stored.
\<close>

lemma derivatives_value:
  fixes L1 L2 m1 m2 g t :: real
  assumes "L1 \<noteq> 0"
  shows "double_pendulum_derivatives [theta1, z1, theta2, z2] t L1 L2 m1 m2 g =
         Inr [Some z1,
              np_true_divide
                (m2 * L1 * z1 * z1 * sin (theta1 - theta2) * cos (theta1 - theta2) +
                 m2 * g * sin theta2 * cos (theta1 - theta2) +
                 m2 * L2 * z2 * z2 * sin (theta1 - theta2) -
                 (m1 + m2) * g * sin theta1)
                (denominator1 L1 m1 m2 (cos (theta1 - theta2))),
              Some z2,
              np_true_divide
                (- m2 * L2 * z2 * z2 * sin (theta1 - theta2) * cos (theta1 - theta2) +
                 (m1 + m2) * (g * sin theta1 * cos (theta1 - theta2) -
                 L1 * z1 * z1 * sin (theta1 - theta2) - g * sin theta2))
                (L2 / L1 * denominator1 L1 m1 m2 (cos (theta1 - theta2)))]"
  using assms
  by (simp add: double_pendulum_derivatives.simps Let_def denominator2_def py_truediv_def)

lemma derivatives_raise:
  fixes L2 m1 m2 g t :: real
  shows "double_pendulum_derivatives [theta1, z1, theta2, z2] t 0 L2 m1 m2 g =
         Inl ZeroDivisionError"
  by (simp add: double_pendulum_derivatives.simps Let_def denominator2_def py_truediv_def)

lemma derivatives_finite:
  fixes L1 L2 m1 m2 g t :: real
  assumes "L1 \<noteq> 0" "L2 \<noteq> 0" "denominator1 L1 m1 m2 (cos (theta1 - theta2)) \<noteq> 0"
  shows "\<exists>a b. double_pendulum_derivatives [theta1, z1, theta2, z2] t L1 L2 m1 m2 g =
               Inr [Some z1, Some a, Some z2, Some b]"
  using assms by (simp add: derivatives_value np_true_divide_def)

lemma spec_derivatives_unfold:
  fixes L1 L2 m1 m2 g :: real
  shows "spec_derivatives theta1 z1 theta2 z2 L1 L2 m1 m2 g =
         [Some z1,
              np_true_divide
                (m2 * L1 * z1 * z1 * sin (theta1 - theta2) * cos (theta1 - theta2) +
                 m2 * g * sin theta2 * cos (theta1 - theta2) +
                 m2 * L2 * z2 * z2 * sin (theta1 - theta2) -
                 (m1 + m2) * g * sin theta1)
                (denominator1 L1 m1 m2 (cos (theta1 - theta2))),
              Some z2,
              np_true_divide
                (- m2 * L2 * z2 * z2 * sin (theta1 - theta2) * cos (theta1 - theta2) +
                 (m1 + m2) * (g * sin theta1 * cos (theta1 - theta2) -
                 L1 * z1 * z1 * sin (theta1 - theta2) - g * sin theta2))
                (L2 / L1 * denominator1 L1 m1 m2 (cos (theta1 - theta2)))]"
proof -
  have sq: "\<And>x::real. x\<^sup>2 = x * x" by (simp add: power2_eq_square)
  have q: "\<And>a b. spec_quotient a b = np_true_divide a b"
    by (simp add: spec_quotient_def np_true_divide_def)
  show ?thesis
    unfolding spec_derivatives_def Let_def q denominator1_def sq
    by (simp only: mult.assoc)
qed

text \<open>
  Claim C1, as amended. For every state vector, every time and all parameters with
  \<open>L1 \<noteq> 0\<close>, the derivative function returns exactly the 4-tuple of the specification's
  formulas (a vanishing denominator giving a non-finite entry); with \<open>L1 = 0\<close> it
  raises \<^verbatim>\<open>ZeroDivisionError\<close> and returns nothing.
\<close>

theorem derivatives_refine_spec:
  fixes L1 L2 m1 m2 g t :: real
  shows "(L1 \<noteq> 0 \<longrightarrow>
            double_pendulum_derivatives [theta1, omega1, theta2, omega2] t L1 L2 m1 m2 g =
            Inr (spec_derivatives theta1 omega1 theta2 omega2 L1 L2 m1 m2 g)) \<and>
         (L1 = 0 \<longrightarrow>
            double_pendulum_derivatives [theta1, omega1, theta2, omega2] t L1 L2 m1 m2 g =
            Inl ZeroDivisionError)"
proof (cases "L1 = 0")
  case True
  then show ?thesis by (simp only: derivatives_raise simp_thms)
next
  case False
  then show ?thesis by (simp only: derivatives_value spec_derivatives_unfold simp_thms)
qed

theorem derivatives_refine_spec_witness:
  "(1::real) \<noteq> 0 \<and>
   double_pendulum_derivatives [0, 1, 0, 1] 0 1 1 1 1 (981 / 100) =
     Inr (spec_derivatives 0 1 0 1 1 1 1 1 (981 / 100)) \<and>
   double_pendulum_derivatives [0, 1, 0, 1] 0 0 1 1 1 (981 / 100) = Inl ZeroDivisionError"
  using derivatives_refine_spec [of 1 0 1 0 1 0 1 1 1 "981 / 100"]
    derivatives_refine_spec [of 0 0 1 0 1 0 1 1 1 "981 / 100"]
  by simp

text \<open>
  Claim C1 as stated fails for a first arm of length zero: started from the notebook's
  initial state with \<open>L1 = 0\<close>, the function does not return the tuple of the formulas.
\<close>

theorem derivatives_zero_length_counterexample:
  "double_pendulum_derivatives y0 0 0 L2 m1 m2 g \<noteq>
   Inr (spec_derivatives theta1_0 z1_0 theta2_0 z2_0 0 L2 m1 m2 g)"
  by (simp add: y0_def derivatives_raise)

section \<open>Time invariance\<close>

text \<open>
  Claim C8. The derivative function is autonomous: at any two times it gives the same
  result for the same state and parameters, be it a value or an error.
\<close>

theorem derivatives_time_invariant:
  fixes t t' L1 L2 m1 m2 g :: real
  shows "double_pendulum_derivatives y t L1 L2 m1 m2 g =
         double_pendulum_derivatives y t' L1 L2 m1 m2 g"
  by (induction y t L1 L2 m1 m2 g rule: double_pendulum_derivatives.induct)
     (simp_all add: double_pendulum_derivatives.simps)

section \<open>No input validation\<close>

text \<open>
  Claim C2, as amended. The notebook validates nothing: the only errors its own code
  raises on a state of four entries come from the derivative function, which raises
  \<^verbatim>\<open>ZeroDivisionError\<close> exactly when \<open>L1 = 0\<close>, while it is being evaluated, and
  otherwise returns an array, whatever the signs of the masses, of \<open>L2\<close> and of \<open>g\<close>.
\<close>

theorem derivatives_errors:
  fixes L1 L2 m1 m2 g t :: real
  shows "(L1 = 0 \<longrightarrow>
            double_pendulum_derivatives [theta1, z1, theta2, z2] t L1 L2 m1 m2 g =
            Inl ZeroDivisionError) \<and>
         (L1 \<noteq> 0 \<longrightarrow>
            (\<exists>dydt. double_pendulum_derivatives [theta1, z1, theta2, z2] t L1 L2 m1 m2 g =
                     Inr dydt \<and> length dydt = 4))"
proof (cases "L1 = 0")
  case True
  then show ?thesis by (simp add: derivatives_raise)
next
  case False
  then show ?thesis by (simp add: derivatives_value)
qed

theorem derivatives_errors_witness:
  "double_pendulum_derivatives [0, 0, 0, 0] 0 0 1 1 (- 1) (981 / 100) = Inl ZeroDivisionError \<and>
   (1::real) \<noteq> 0 \<and>
   (\<exists>dydt. double_pendulum_derivatives [0, 0, 0, 0] 0 1 1 1 (- 1) (981 / 100) = Inr dydt \<and>
            length dydt = 4)"
  using derivatives_errors [of 0 0 0 0 0 0 1 1 "- 1" "981 / 100"]
    derivatives_errors [of 1 0 0 0 0 0 1 1 "- 1" "981 / 100"]
  by simp

text \<open>
  Claim C2 as stated fails. With \<open>m2 = -1\<close> the first evaluation the solver asks for, at
  the initial state and time \<open>0\<close>, is carried out and returns an array; with \<open>L1 = 0\<close>
  the error is Python's \<^verbatim>\<open>ZeroDivisionError\<close>, raised inside that evaluation.
\<close>

theorem no_validation_counterexample:
  "double_pendulum_derivatives y0 0 L1 L2 m1 (- 1) g =
     Inr [Some 0, Some (- (981 / 100)), Some 0, Some 0] \<and>
   double_pendulum_derivatives y0 0 0 L2 m1 m2 g = Inl ZeroDivisionError"
proof -
  have d: "theta1_0 - theta2_0 = pi / 4" by (simp add: theta1_0_def theta2_0_def)
  have L: "L1 \<noteq> 0" by (simp add: L1_def)
  have "double_pendulum_derivatives y0 0 L1 L2 m1 (- 1) g =
          Inr [Some 0, Some (- (981 / 100)), Some 0, Some 0]"
    unfolding y0_def
    apply (simp only: derivatives_value [OF L] d)
    apply (simp add: denominator1_def np_true_divide_def cos_45 sin_45 z1_0_def z2_0_def
        theta1_0_def theta2_0_def L1_def L2_def m1_def g_def)
    done
  then show ?thesis by (simp add: y0_def derivatives_raise)
qed

section \<open>The denominators\<close>



lemma canonical_denominator1: "denominator1 L1 m1 m2 c = 2 - c\<^sup>2"
  by (simp add: denominator1_def L1_def m1_def m2_def power2_eq_square)

lemma cos_squared_le_one: "(cos (d::real))\<^sup>2 \<le> 1"
  by (simp add: abs_square_le_1)

text \<open>
  Claim C3. With the parameters of cell 3 (\<open>L1 = L2 = m1 = m2 = 1\<close>) and any state,
  \<^verbatim>\<open>denominator1\<close> and \<^verbatim>\<open>denominator2\<close> are nonzero, since \<^verbatim>\<open>denominator1\<close> vanishes only
  for \<open>cos_delta\<^sup>2 = 2\<close>; so the derivative function raises nothing and returns finite
  entries, whatever \<open>g\<close> is. In general (the quotient being meaningful for
  \<open>m2 * L1 \<noteq> 0\<close>) \<^verbatim>\<open>denominator1\<close> vanishes exactly when
  \<open>cos_delta\<^sup>2 = (m1+m2)*L1 / (m2*L1)\<close>.
\<close>

theorem canonical_no_singularity:
  fixes theta1 theta2 z1 z2 time grav len1 mass1 mass2 c :: real
  shows "denominator1 L1 m1 m2 (cos (theta1 - theta2)) \<noteq> 0 \<and>
         (\<exists>den2. denominator2 L1 L2 (denominator1 L1 m1 m2 (cos (theta1 - theta2))) = Inr den2
                  \<and> den2 \<noteq> 0) \<and>
         (\<exists>a b. double_pendulum_derivatives [theta1, z1, theta2, z2] time L1 L2 m1 m2 grav =
                  Inr [Some z1, Some a, Some z2, Some b]) \<and>
         (denominator1 L1 m1 m2 c = 0 \<longleftrightarrow> c\<^sup>2 = 2) \<and>
         (mass2 \<noteq> 0 \<and> len1 \<noteq> 0 \<longrightarrow>
            (denominator1 len1 mass1 mass2 c = 0 \<longleftrightarrow>
             c\<^sup>2 = (mass1 + mass2) * len1 / (mass2 * len1)))"
proof (intro conjI impI)
  have le: "(cos (theta1 - theta2))\<^sup>2 \<le> 1" by (rule cos_squared_le_one)
  then show nz: "denominator1 L1 m1 m2 (cos (theta1 - theta2)) \<noteq> 0"
    by (simp add: canonical_denominator1)
  then show "\<exists>den2. denominator2 L1 L2 (denominator1 L1 m1 m2 (cos (theta1 - theta2))) = Inr den2
                  \<and> den2 \<noteq> 0"
    by (simp add: denominator2_def py_truediv_def L1_def L2_def)
  have "L1 \<noteq> 0" "L2 \<noteq> 0" by (simp_all add: L1_def L2_def)
  then show "\<exists>a b. double_pendulum_derivatives [theta1, z1, theta2, z2] time L1 L2 m1 m2 grav =
                  Inr [Some z1, Some a, Some z2, Some b]"
    using nz by (rule derivatives_finite)
  show "denominator1 L1 m1 m2 c = 0 \<longleftrightarrow> c\<^sup>2 = 2"
    by (auto simp add: canonical_denominator1)
next
  assume "mass2 \<noteq> 0 \<and> len1 \<noteq> 0"
  then have nz: "mass2 * len1 \<noteq> 0" by simp
  have "denominator1 len1 mass1 mass2 c = (mass1 + mass2) * len1 - (mass2 * len1) * c\<^sup>2"
    by (simp add: denominator1_def power2_eq_square)
  then have "denominator1 len1 mass1 mass2 c = 0 \<longleftrightarrow>
             (mass2 * len1) * c\<^sup>2 = (mass1 + mass2) * len1"
    by auto
  also have "\<dots> \<longleftrightarrow> c\<^sup>2 = (mass1 + mass2) * len1 / (mass2 * len1)"
    using nz by (simp add: field_simps)
  finally show "denominator1 len1 mass1 mass2 c = 0 \<longleftrightarrow>
             c\<^sup>2 = (mass1 + mass2) * len1 / (mass2 * len1)" .
qed

theorem canonical_no_singularity_witness:
  "(4::real) \<noteq> 0 \<and> (2::real) \<noteq> 0 \<and>
   denominator1 2 (- 3) 4 (1 / 2) = 0 \<and> (1 / 2 :: real)\<^sup>2 = (- 3 + 4) * 2 / (4 * 2) \<and>
   denominator1 L1 m1 m2 (cos (0 - 0)) \<noteq> 0"
  using canonical_no_singularity [of 0 0 0 0 0 0 "1 / 2" 4 2 "- 3"]
  by (simp add: power2_eq_square)



subsection \<open>Rounding\<close>







section \<open>The Cartesian projection\<close>

lemma column_rows:
  fixes sol :: "real list list"
  assumes "\<forall>row \<in> set sol. length row = 4" "k < 4"
  shows "column k sol = Inr (map (\<lambda>row. row ! k) sol)"
  using assms by (simp add: column_def)

text \<open>
  Claim C7. On a trajectory whose rows are state vectors (four entries), cell 5 is a map
  over the rows: entry \<open>i\<close> of \<^verbatim>\<open>x1, y1\<close> is the position of mass 1 and entry \<open>i\<close> of
  \<^verbatim>\<open>x2, y2\<close> the position of mass 2 that the specification gives for row \<open>i\<close> alone. For
  a single state vector these are \<open>(L1*sin(theta1), -L1*cos(theta1))\<close> and that position
  plus \<open>(L2*sin(theta2), -L2*cos(theta2))\<close>.
\<close>

theorem cartesian_per_sample:
  fixes L1 L2 :: real and sol :: "real list list"
  shows "((\<forall>row \<in> set sol. length row = 4) \<longrightarrow>
          cartesian L1 L2 sol =
            Inr (map (\<lambda>row. fst (spec_mass1 L1 (row ! 0))) sol,
                 map (\<lambda>row. snd (spec_mass1 L1 (row ! 0))) sol,
                 map (\<lambda>row. fst (spec_mass2 L1 L2 (row ! 0) (row ! 2))) sol,
                 map (\<lambda>row. snd (spec_mass2 L1 L2 (row ! 0) (row ! 2))) sol)) \<and>
         cartesian L1 L2 [[theta1, omega1, theta2, omega2]] =
            Inr ([L1 * sin theta1], [- L1 * cos theta1],
                 [L1 * sin theta1 + L2 * sin theta2],
                 [- L1 * cos theta1 + (- L2 * cos theta2)])"
proof (intro conjI impI)
  assume rows: "\<forall>row \<in> set sol. length row = 4"
  have c0: "column 0 sol = Inr (map (\<lambda>row. row ! 0) sol)"
    using rows by (simp add: column_rows)
  have c2: "column 2 sol = Inr (map (\<lambda>row. row ! 2) sol)"
    using rows by (simp add: column_rows)
  show "cartesian L1 L2 sol =
            Inr (map (\<lambda>row. fst (spec_mass1 L1 (row ! 0))) sol,
                 map (\<lambda>row. snd (spec_mass1 L1 (row ! 0))) sol,
                 map (\<lambda>row. fst (spec_mass2 L1 L2 (row ! 0) (row ! 2))) sol,
                 map (\<lambda>row. snd (spec_mass2 L1 L2 (row ! 0) (row ! 2))) sol)"
    unfolding cartesian_def c0 c2
    by (simp add: Let_def np_scale_def np_sin_def np_cos_def np_add_def np_subtract_def
        spec_mass1_def spec_mass2_def zip_map_map comp_def zip_same_conv_map)
next
  show "cartesian L1 L2 [[theta1, omega1, theta2, omega2]] =
            Inr ([L1 * sin theta1], [- L1 * cos theta1],
                 [L1 * sin theta1 + L2 * sin theta2],
                 [- L1 * cos theta1 + (- L2 * cos theta2)])"
    by (simp add: cartesian_def column_def Let_def np_scale_def np_sin_def np_cos_def
        np_add_def np_subtract_def)
qed

theorem cartesian_per_sample_witness:
  "length [0, 0, 0, 0 :: real] = 4 \<and> length [pi / 2, 1, pi, 2 :: real] = 4 \<and>
   cartesian 2 3 [[0, 0, 0, 0], [pi / 2, 1, pi, 2]] =
     Inr ([0, 2], [- 2, 0], [0, 2], [- 5, 3])"
  using cartesian_per_sample [of "[[0, 0, 0, 0], [pi / 2, 1, pi, 2]]" 2 3]
  by (simp add: spec_mass1_def spec_mass2_def)

section \<open>The two runs\<close>

lemma linspace_length: "length (linspace a b n) = n"
  by (simp add: linspace_def Let_def)

lemma linspace_nth:
  assumes "1 < n" "i < n"
  shows "linspace a b n ! i = a + real i * ((b - a) / real (n - 1))"
proof (cases "i = n - 1")
  case True
  have "real (n - 1) \<noteq> 0" using assms by simp
  then have "a + real (n - 1) * ((b - a) / real (n - 1)) = b" by simp
  moreover have "linspace a b n ! (n - 1) = b"
    using assms by (simp add: linspace_def Let_def)
  ultimately show ?thesis using True by simp
next
  case False
  then show ?thesis using assms by (simp add: linspace_def Let_def)
qed

lemma t_nth: "i < 2000 \<Longrightarrow> t ! i = real i * (100 / 1999)"
  using linspace_nth [of 2000 i 0 100] by (simp add: t_def)

lemma t_length: "length t = 2000"
  by (simp add: t_def linspace_length)

lemma t_increasing: "sorted_wrt (<) t"
  unfolding sorted_wrt_iff_nth_less
proof (intro allI impI)
  fix i j assume "i < j" "j < length t"
  then have "i < 2000" "j < 2000" by (simp_all add: t_length)
  then show "t ! i < t ! j" using \<open>i < j\<close> by (simp add: t_nth)
qed

lemma t_last: "last t = 100"
proof -
  have "t \<noteq> []" using t_length by auto
  then have "last t = t ! 1999" by (simp add: last_conv_nth t_length)
  then show ?thesis by (simp add: t_nth)
qed

lemma t_step: "i < 1999 \<Longrightarrow> t ! (i + 1) - t ! i = 100 / 1999"
  by (simp add: t_nth algebra_simps)

text \<open>
  Claim C10. The two runs of cell 4 hand the solver the same derivative function, the
  same parameters and the same time samples; their initial states have zero angular
  velocities and the same \<open>theta1\<close>, and differ only in \<open>theta2\<close>, by exactly \<open>1e-9\<close>.
  The time samples are 2000 values from 0 to 100, strictly increasing, any two
  neighbours \<open>100/1999\<close> apart, the first being the initial time 0.
\<close>

theorem two_runs:
  fixes odeint :: solver
  shows "sol odeint = odeint double_pendulum_derivatives y0 t (L1, L2, m1, m2, g) \<and>
         sol_small odeint = odeint double_pendulum_derivatives y0_small t (L1, L2, m1, m2, g) \<and>
         length y0 = 4 \<and> y0_small = y0[2 := y0 ! 2 + 1 / 10 ^ 9] \<and>
         y0_small ! 0 = y0 ! 0 \<and> y0_small ! 2 - y0 ! 2 = 1 / 10 ^ 9 \<and>
         y0 ! 1 = 0 \<and> y0 ! 3 = 0 \<and> y0_small ! 1 = 0 \<and> y0_small ! 3 = 0 \<and>
         length t = 2000 \<and> t ! 0 = 0 \<and> last t = 100 \<and> sorted_wrt (<) t \<and>
         (i < 1999 \<longrightarrow> t ! (i + 1) - t ! i = 100 / 1999)"
proof (intro conjI impI)
  show "sol odeint = odeint double_pendulum_derivatives y0 t (L1, L2, m1, m2, g)"
    by (simp add: sol_def)
  show "sol_small odeint = odeint double_pendulum_derivatives y0_small t (L1, L2, m1, m2, g)"
    by (simp add: sol_small_def)
  show "length y0 = 4" by (simp add: y0_def)
  show "y0_small = y0[2 := y0 ! 2 + 1 / 10 ^ 9]"
    by (simp add: y0_def y0_small_def theta1_0_small_def theta2_0_small_def)
  show "y0_small ! 0 = y0 ! 0" by (simp add: y0_def y0_small_def theta1_0_small_def)
  show "y0_small ! 2 - y0 ! 2 = 1 / 10 ^ 9"
    by (simp add: y0_def y0_small_def theta2_0_small_def)
  show "y0 ! 1 = 0" by (simp add: y0_def z1_0_def)
  show "y0 ! 3 = 0" by (simp add: y0_def z2_0_def)
  show "y0_small ! 1 = 0" by (simp add: y0_small_def z1_0_def)
  show "y0_small ! 3 = 0" by (simp add: y0_small_def z2_0_def)
  show "length t = 2000" by (rule t_length)
  show "t ! 0 = 0" by (simp add: t_nth)
  show "last t = 100" by (rule t_last)
  show "sorted_wrt (<) t" by (rule t_increasing)
next
  assume "i < 1999"
  then show "t ! (i + 1) - t ! i = 100 / 1999" by (rule t_step)
qed

theorem two_runs_witness:
  "(0::nat) < 1999 \<and> t ! (0 + 1) - t ! 0 = 100 / 1999 \<and>
   sol (\<lambda>f y ts args. Inr [y]) = Inr [y0] \<and> sol_small (\<lambda>f y ts args. Inr [y]) = Inr [y0_small]"
  using two_runs [of "\<lambda>f y ts args. Inr [y]" 0] by simp

end
